theory Spec2Isabelle
  imports Complex_Main
begin

section \<open>Numbers, time and faults\<close>

text \<open>
  The estimator of \<^verbatim>\<open>src/src/odometry.cpp\<close> computes on C++ \<^verbatim>\<open>double\<close>s. They are
  modelled by the real numbers: no rounding and no overflow. The one thing a real number
  cannot hold is the result of an IEEE division by zero (an infinity or a NaN), so every
  division of the source goes through \<open>fdiv\<close>, which reports a zero divisor as a
  fault instead of returning HOL's \<open>a / 0 = 0\<close>. A fault ends the modelled call: the
  C++ call itself carries on with non-finite numbers, which are outside this model.

  A \<^verbatim>\<open>ros::Time\<close> is modelled by the number of seconds it denotes, and
  \<^verbatim>\<open>(a - b).toSec()\<close> by the difference of the two.
\<close>

datatype fault = DivisionByZero

definition fdiv :: "real \<Rightarrow> real \<Rightarrow> fault + real" where
  "fdiv a b = (if b = 0 then Inl DivisionByZero else Inr (a / b))"

definition and_then :: "fault + 'a \<Rightarrow> ('a \<Rightarrow> fault + 'b) \<Rightarrow> fault + 'b" where
  "and_then m f = (case m of Inl e \<Rightarrow> Inl e | Inr v \<Rightarrow> f v)"

section \<open>The rolling mean accumulator\<close>

text \<open>
  Modelled from the spec: the type \<^verbatim>\<open>RollingMeanAcc\<close> (declared in the header
  \<^verbatim>\<open>odometry.h\<close>, which is not among the sources, on top of an accumulator library) is
  the spec's RollingWindow: a buffer of capacity N holding the most recent inserted
  samples, oldest first, plus their running sum. Inserting appends the sample and evicts
  the oldest one if the buffer was at capacity; the reported mean is the running sum
  divided by the number of buffered samples. The source inserts with
  \<^verbatim>\<open>linear_accum_(v)\<close> (here \<open>accumulate\<close>) and reads the mean with
  \<^verbatim>\<open>bacc::rolling_mean(linear_accum_)\<close> (here \<open>rolling_mean\<close>).
\<close>

record rolling_mean_acc =
  window_size :: nat
  rolling_window :: "real list"
  rolling_sum :: real

definition RollingMeanAcc :: "nat \<Rightarrow> rolling_mean_acc" where
  "RollingMeanAcc n = \<lparr>window_size = n, rolling_window = [], rolling_sum = 0\<rparr>"

definition accumulate :: "rolling_mean_acc \<Rightarrow> real \<Rightarrow> rolling_mean_acc" where
  "accumulate a v =
     (let b = rolling_window a @ [v] in
      if window_size a < length b
      then a\<lparr>rolling_window := tl b, rolling_sum := rolling_sum a + v - hd b\<rparr>
      else a\<lparr>rolling_window := b, rolling_sum := rolling_sum a + v\<rparr>)"

definition rolling_mean :: "rolling_mean_acc \<Rightarrow> fault + real" where
  "rolling_mean a = fdiv (rolling_sum a) (real (length (rolling_window a)))"

text \<open>The spec's \<^verbatim>\<open>insert(sample) -> currentMean\<close> is the two in sequence.\<close>

definition insert_sample :: "rolling_mean_acc \<Rightarrow> real \<Rightarrow> fault + real" where
  "insert_sample a v = rolling_mean (accumulate a v)"

section \<open>The state of an \<^verbatim>\<open>Odometry\<close> object\<close>

text \<open>
  The member \<^verbatim>\<open>integrate_fun_\<close> is a \<^verbatim>\<open>std::function\<close> bound to one of the two
  integration methods of the class; it is modelled by a tag naming the method.
  The fields keep the names of the members without the trailing underscore, except
  \<^verbatim>\<open>x_\<close> and \<^verbatim>\<open>y_\<close>, which become \<open>pose_x\<close> and \<open>pose_y\<close>. A variable named \<^verbatim>\<open>linear\<close>
  in the source is written \<open>linear'\<close>, the unprimed name being a constant of HOL.
\<close>

datatype integrator = IntegrateExact | IntegrateRungeKutta2

record odometry =
  timestamp :: real
  pose_x :: real
  pose_y :: real
  heading :: real
  linear_vel :: real
  angular_vel :: real
  wheel_separation :: real
  left_wheel_radius :: real
  right_wheel_radius :: real
  left_wheel_old_pos :: real
  right_wheel_old_pos :: real
  velocity_rolling_window_size :: nat
  linear_accum :: rolling_mean_acc
  angular_accum :: rolling_mean_acc
  integrate_fun :: integrator

definition Odometry :: "nat \<Rightarrow> odometry" where
  "Odometry n =
     \<lparr>timestamp = 0, pose_x = 0, pose_y = 0, heading = 0,
      linear_vel = 0, angular_vel = 0,
      wheel_separation = 0, left_wheel_radius = 0, right_wheel_radius = 0,
      left_wheel_old_pos = 0, right_wheel_old_pos = 0,
      velocity_rolling_window_size = n,
      linear_accum = RollingMeanAcc n, angular_accum = RollingMeanAcc n,
      integrate_fun = IntegrateExact\<rparr>"

definition resetAccumulators :: "odometry \<Rightarrow> odometry" where
  "resetAccumulators s =
     s\<lparr>linear_accum := RollingMeanAcc (velocity_rolling_window_size s),
       angular_accum := RollingMeanAcc (velocity_rolling_window_size s)\<rparr>"

definition init :: "odometry \<Rightarrow> real \<Rightarrow> odometry" where
  "init s time = (resetAccumulators s)\<lparr>timestamp := time\<rparr>"

definition setWheelParams :: "odometry \<Rightarrow> real \<Rightarrow> real \<Rightarrow> real \<Rightarrow> odometry" where
  "setWheelParams s separation left_radius right_radius =
     s\<lparr>wheel_separation := separation,
       left_wheel_radius := left_radius,
       right_wheel_radius := right_radius\<rparr>"

definition setVelocityRollingWindowSize :: "odometry \<Rightarrow> nat \<Rightarrow> odometry" where
  "setVelocityRollingWindowSize s n =
     resetAccumulators (s\<lparr>velocity_rolling_window_size := n\<rparr>)"

section \<open>Pose integration\<close>

definition integrateRungeKutta2 :: "odometry \<Rightarrow> real \<Rightarrow> real \<Rightarrow> odometry" where
  "integrateRungeKutta2 s linear' angular =
     (let direction = heading s + angular * (1 / 2) in
      s\<lparr>pose_x := pose_x s + linear' * cos direction,
        pose_y := pose_y s + linear' * sin direction,
        heading := heading s + angular\<rparr>)"

definition integrateExact :: "odometry \<Rightarrow> real \<Rightarrow> real \<Rightarrow> fault + odometry" where
  "integrateExact s linear' angular =
     (if \<bar>angular\<bar> < 1 / 10000 then Inr (integrateRungeKutta2 s linear' angular)
      else
        (let heading_old = heading s in
         and_then (fdiv linear' angular) (\<lambda>radius.
           let s1 = s\<lparr>heading := heading s + angular\<rparr>;
               s2 = s1\<lparr>pose_x := pose_x s1 + radius * (sin (heading s1) - sin heading_old)\<rparr>;
               s3 = s2\<lparr>pose_y := pose_y s2 + (- radius) * (cos (heading s2) - cos heading_old)\<rparr>
           in Inr s3)))"

text \<open>A call through \<^verbatim>\<open>integrate_fun_\<close>.\<close>

definition call_integrate_fun :: "odometry \<Rightarrow> real \<Rightarrow> real \<Rightarrow> fault + odometry" where
  "call_integrate_fun s linear' angular =
     (case integrate_fun s of
        IntegrateExact \<Rightarrow> integrateExact s linear' angular
      | IntegrateRungeKutta2 \<Rightarrow> Inr (integrateRungeKutta2 s linear' angular))"

section \<open>The three update methods\<close>

definition updateWithVelEst :: "odometry \<Rightarrow> real \<Rightarrow> real \<Rightarrow> real \<Rightarrow> fault + (bool \<times> odometry)" where
  "updateWithVelEst s left_pos right_pos time =
     (let left_wheel_cur_pos = left_pos * left_wheel_radius s;
          right_wheel_cur_pos = right_pos * right_wheel_radius s;
          left_wheel_dist_traveled = left_wheel_cur_pos - left_wheel_old_pos s;
          right_wheel_dist_traveled = right_wheel_cur_pos - right_wheel_old_pos s;
          s1 = s\<lparr>left_wheel_old_pos := left_wheel_cur_pos,
                 right_wheel_old_pos := right_wheel_cur_pos\<rparr>;
          linear' = (right_wheel_dist_traveled + left_wheel_dist_traveled) * (1 / 2)
      in
      and_then (fdiv (right_wheel_dist_traveled - left_wheel_dist_traveled) (wheel_separation s1))
        (\<lambda>angular.
      and_then (call_integrate_fun s1 linear' angular) (\<lambda>s2.
        let dt = time - timestamp s2 in
        if dt < 1 / 10000 then Inr (False, s2)
        else
          (let s3 = s2\<lparr>timestamp := time\<rparr> in
           and_then (fdiv linear' dt) (\<lambda>linear_sample.
           and_then (fdiv angular dt) (\<lambda>angular_sample.
             let s4 = s3\<lparr>linear_accum := accumulate (linear_accum s3) linear_sample\<rparr>;
                 s5 = s4\<lparr>angular_accum := accumulate (angular_accum s4) angular_sample\<rparr>
             in
             and_then (rolling_mean (linear_accum s5)) (\<lambda>linear_mean.
             and_then (rolling_mean (angular_accum s5)) (\<lambda>angular_mean.
               Inr (True, s5\<lparr>linear_vel := linear_mean, angular_vel := angular_mean\<rparr>)))))))))"

definition update :: "odometry \<Rightarrow> real \<Rightarrow> real \<Rightarrow> real \<Rightarrow> real \<Rightarrow> real \<Rightarrow> fault + (bool \<times> odometry)" where
  "update s left_pos right_pos left_vel right_vel time =
     (let r = (left_wheel_radius s + right_wheel_radius s) * (1 / 2);
          s1 = s\<lparr>linear_vel := (left_vel + right_vel) * r / 2\<rparr>
      in
      and_then (fdiv (r * (right_vel - left_vel)) (wheel_separation s1)) (\<lambda>angular_rate.
        let s2 = s1\<lparr>angular_vel := angular_rate\<rparr>;
            left_wheel_cur_pos = left_pos * left_wheel_radius s2;
            right_wheel_cur_pos = right_pos * right_wheel_radius s2;
            left_wheel_dist_traveled = left_wheel_cur_pos - left_wheel_old_pos s2;
            right_wheel_dist_traveled = right_wheel_cur_pos - right_wheel_old_pos s2;
            s3 = s2\<lparr>left_wheel_old_pos := left_wheel_cur_pos,
                   right_wheel_old_pos := right_wheel_cur_pos\<rparr>;
            linear_diff = (right_wheel_dist_traveled + left_wheel_dist_traveled) * (1 / 2)
        in
        and_then (fdiv (right_wheel_dist_traveled - left_wheel_dist_traveled) (wheel_separation s3))
          (\<lambda>angular_diff.
        and_then (call_integrate_fun s3 linear_diff angular_diff) (\<lambda>s4.
          Inr (True, s4)))))"

definition updateOpenLoop :: "odometry \<Rightarrow> real \<Rightarrow> real \<Rightarrow> real \<Rightarrow> fault + odometry" where
  "updateOpenLoop s linear' angular time =
     (let s1 = s\<lparr>linear_vel := linear', angular_vel := angular\<rparr>;
          dt = time - timestamp s1;
          s2 = s1\<lparr>timestamp := time\<rparr>
      in call_integrate_fun s2 (linear' * dt) (angular * dt))"

section \<open>The increments of the encoder-based updates\<close>

text \<open>
  \<^verbatim>\<open>updateWithVelEst\<close> and \<^verbatim>\<open>update\<close> compute the same two increments from the
  wheel positions, the radii and the encoder memory; the theorems below name them.
\<close>

abbreviation encoder_linear :: "odometry \<Rightarrow> real \<Rightarrow> real \<Rightarrow> real" where
  "encoder_linear s left_pos right_pos \<equiv>
     ((right_pos * right_wheel_radius s - right_wheel_old_pos s)
      + (left_pos * left_wheel_radius s - left_wheel_old_pos s)) * (1 / 2)"

abbreviation encoder_angular :: "odometry \<Rightarrow> real \<Rightarrow> real \<Rightarrow> real" where
  "encoder_angular s left_pos right_pos \<equiv>
     ((right_pos * right_wheel_radius s - right_wheel_old_pos s)
      - (left_pos * left_wheel_radius s - left_wheel_old_pos s)) / wheel_separation s"

section \<open>Sequences of pose-integration steps\<close>

text \<open>
  The pose after a sequence of increments \<open>(linear, angular)\<close>, each applied by one
  call through \<^verbatim>\<open>integrate_fun_\<close>.
\<close>

fun integrate_all :: "odometry \<Rightarrow> (real \<times> real) list \<Rightarrow> fault + odometry" where
  "integrate_all s [] = Inr s"
| "integrate_all s (inc # incs) =
     and_then (call_integrate_fun s (fst inc) (snd inc)) (\<lambda>s'. integrate_all s' incs)"

section \<open>Basic facts\<close>

lemma and_then_Inl [simp]: "and_then (Inl e) f = Inl e"
  by (simp add: and_then_def)

lemma and_then_Inr [simp]: "and_then (Inr v) f = f v"
  by (simp add: and_then_def)

lemma fdiv_nonzero [simp]: "b \<noteq> 0 \<Longrightarrow> fdiv a b = Inr (a / b)"
  by (simp add: fdiv_def)

lemma fdiv_zero [simp]: "fdiv a 0 = Inl DivisionByZero"
  by (simp add: fdiv_def)

section \<open>setWheelParams\<close>

text \<open>
  Claim C9. \<^verbatim>\<open>setWheelParams\<close> stores its three arguments in the three wheel
  parameters and changes nothing else: pose, velocity estimate, encoder memory,
  timestamp, window size, both accumulators (capacity and buffered samples) and the
  integration method are those of the state before the call, for every state and all
  arguments.
\<close>

theorem setWheelParams_frame:
  "wheel_separation (setWheelParams s sep lr rr) = sep
   \<and> left_wheel_radius (setWheelParams s sep lr rr) = lr
   \<and> right_wheel_radius (setWheelParams s sep lr rr) = rr
   \<and> pose_x (setWheelParams s sep lr rr) = pose_x s
   \<and> pose_y (setWheelParams s sep lr rr) = pose_y s
   \<and> heading (setWheelParams s sep lr rr) = heading s
   \<and> linear_vel (setWheelParams s sep lr rr) = linear_vel s
   \<and> angular_vel (setWheelParams s sep lr rr) = angular_vel s
   \<and> left_wheel_old_pos (setWheelParams s sep lr rr) = left_wheel_old_pos s
   \<and> right_wheel_old_pos (setWheelParams s sep lr rr) = right_wheel_old_pos s
   \<and> timestamp (setWheelParams s sep lr rr) = timestamp s
   \<and> velocity_rolling_window_size (setWheelParams s sep lr rr) = velocity_rolling_window_size s
   \<and> linear_accum (setWheelParams s sep lr rr) = linear_accum s
   \<and> angular_accum (setWheelParams s sep lr rr) = angular_accum s
   \<and> integrate_fun (setWheelParams s sep lr rr) = integrate_fun s
   \<and> setWheelParams s sep lr rr
       = s\<lparr>wheel_separation := sep, left_wheel_radius := lr, right_wheel_radius := rr\<rparr>"
  by (simp add: setWheelParams_def)

section \<open>Pose integration never divides by zero\<close>

lemma integrateExact_Inr:
  "integrateExact s l a =
     Inr (if \<bar>a\<bar> < 1 / 10000 then integrateRungeKutta2 s l a
          else s\<lparr>heading := heading s + a,
                 pose_x := pose_x s + l / a * (sin (heading s + a) - sin (heading s)),
                 pose_y := pose_y s + - (l / a) * (cos (heading s + a) - cos (heading s))\<rparr>)"
  by (auto simp add: integrateExact_def Let_def)

lemma heading_update_last:
  "s\<lparr>heading := h, pose_x := a, pose_y := b\<rparr> = s\<lparr>pose_x := a, pose_y := b, heading := h\<rparr>"
  by (cases s) simp

text \<open>
  A call through \<^verbatim>\<open>integrate_fun_\<close> always returns, and writes the three pose
  fields only.
\<close>

lemma call_integrate_fun_frame:
  "\<exists>px py. call_integrate_fun s l a
     = Inr (s\<lparr>pose_x := px, pose_y := py, heading := heading s + a\<rparr>)"
  by (cases "integrate_fun s")
     (auto simp add: call_integrate_fun_def integrateExact_Inr integrateRungeKutta2_def Let_def
        heading_update_last)

text \<open>
  Claim C2. The estimator is constructed with the Exact strategy. For every state and
  increment, the Midpoint step adds \<open>l * cos direction\<close> to x and
  \<open>l * sin direction\<close> to y, with \<open>direction = heading + a / 2\<close>, and adds \<open>a\<close>
  to the heading. The Exact step is the Midpoint step when \<open>\<bar>a\<bar> < 1 / 10000\<close>, and
  otherwise the arc update with \<open>radius = l / a\<close>: the heading grows by \<open>a\<close>,
  x by \<open>radius * (sin heading_new - sin heading_old)\<close> and y by
  \<open>- radius * (cos heading_new - cos heading_old)\<close>.
\<close>

theorem integrateExact_cases:
  "integrate_fun (Odometry n) = IntegrateExact
   \<and> (integrate_fun s = IntegrateExact \<longrightarrow> call_integrate_fun s l a = integrateExact s l a)
   \<and> integrateRungeKutta2 s l a
       = s\<lparr>pose_x := pose_x s + l * cos (heading s + a / 2),
           pose_y := pose_y s + l * sin (heading s + a / 2),
           heading := heading s + a\<rparr>
   \<and> (\<bar>a\<bar> < 1 / 10000 \<longrightarrow> integrateExact s l a = Inr (integrateRungeKutta2 s l a))
   \<and> (\<bar>a\<bar> \<ge> 1 / 10000 \<longrightarrow>
        integrateExact s l a
          = Inr (s\<lparr>heading := heading s + a,
                   pose_x := pose_x s + l / a * (sin (heading s + a) - sin (heading s)),
                   pose_y := pose_y s + - (l / a) * (cos (heading s + a) - cos (heading s))\<rparr>))"
  by (simp add: Odometry_def call_integrate_fun_def integrateExact_Inr integrateRungeKutta2_def Let_def)

theorem integrateExact_cases_witness:
  "integrate_fun (Odometry 1) = IntegrateExact
   \<and> call_integrate_fun (Odometry 1) 2 1 = integrateExact (Odometry 1) 2 1
   \<and> \<bar>0 :: real\<bar> < 1 / 10000
   \<and> integrateExact (Odometry 1) 2 0 = Inr ((Odometry 1)\<lparr>pose_x := 2, pose_y := 0, heading := 0\<rparr>)
   \<and> \<bar>1 :: real\<bar> \<ge> 1 / 10000
   \<and> integrateExact (Odometry 1) 2 1
        = Inr ((Odometry 1)\<lparr>heading := 1, pose_x := 2 * sin 1, pose_y := - (2 * (cos 1 - 1))\<rparr>)"
  using integrateExact_cases [where n = 1 and s = "Odometry 1" and l = 2 and a = 0]
    integrateExact_cases [where n = 1 and s = "Odometry 1" and l = 2 and a = 1]
  by (simp add: Odometry_def)

section \<open>The heading is the sum of the angular increments\<close>

lemma integrate_all_heading:
  "\<exists>s'. integrate_all s incs = Inr s' \<and> heading s' = heading s + sum_list (map snd incs)"
proof (induction incs arbitrary: s)
  case Nil
  show ?case by simp
next
  case (Cons inc incs)
  obtain px py where step: "call_integrate_fun s (fst inc) (snd inc)
      = Inr (s\<lparr>pose_x := px, pose_y := py, heading := heading s + snd inc\<rparr>)"
    using call_integrate_fun_frame by blast
  from Cons.IH [of "s\<lparr>pose_x := px, pose_y := py, heading := heading s + snd inc\<rparr>"]
  show ?case by (auto simp add: step)
qed

text \<open>
  Claim C7. The heading is never wrapped. One integration step, by the Midpoint
  method, by the Exact method (either branch) or through \<^verbatim>\<open>integrate_fun_\<close>, returns
  and adds exactly the angular increment to the heading. A sequence of steps returns and
  leaves the heading at the initial heading plus the sum of all angular increments; when
  the increments sum to \<open>2 * pi\<close> the heading has grown by \<open>2 * pi\<close>.
\<close>

theorem heading_not_wrapped:
  "heading (integrateRungeKutta2 s l a) = heading s + a
   \<and> (\<exists>s'. integrateExact s l a = Inr s' \<and> heading s' = heading s + a)
   \<and> (\<exists>s'. call_integrate_fun s l a = Inr s' \<and> heading s' = heading s + a)
   \<and> (\<exists>s'. integrate_all s incs = Inr s' \<and> heading s' = heading s + sum_list (map snd incs))
   \<and> (sum_list (map snd incs) = 2 * pi \<longrightarrow>
        (\<exists>s'. integrate_all s incs = Inr s' \<and> heading s' = heading s + 2 * pi))"
proof -
  have rk: "heading (integrateRungeKutta2 s l a) = heading s + a"
    by (simp add: integrateRungeKutta2_def Let_def)
  have ex: "\<exists>s'. integrateExact s l a = Inr s' \<and> heading s' = heading s + a"
    by (simp add: integrateExact_Inr rk)
  have call: "\<exists>s'. call_integrate_fun s l a = Inr s' \<and> heading s' = heading s + a"
    using call_integrate_fun_frame [of s l a] by auto
  have all: "\<exists>s'. integrate_all s incs = Inr s' \<and> heading s' = heading s + sum_list (map snd incs)"
    by (rule integrate_all_heading)
  from rk ex call all show ?thesis by metis
qed

theorem heading_not_wrapped_witness:
  "sum_list (map snd [(1, pi), (1, pi / 2), (1, pi / 2)]) = 2 * pi
   \<and> (\<exists>s'. integrate_all (Odometry 1) [(1, pi), (1, pi / 2), (1, pi / 2)] = Inr s'
          \<and> heading s' = heading (Odometry 1) + 2 * pi)"
  using heading_not_wrapped [where s = "Odometry 1" and incs = "[(1, pi), (1, pi / 2), (1, pi / 2)]"]
  by simp

section \<open>A freshly constructed estimator\<close>

text \<open>
  Claim C10. For every window size, the constructor yields pose (0, 0, 0), velocity
  estimate (0, 0), encoder memory (0, 0), timestamp 0, and wheel separation and both
  radii 0. An update from encoder positions, with or without supplied velocities, called
  on that state (also after \<^verbatim>\<open>init\<close>) therefore divides by the zero separation: the
  division is not guarded, and the model reports it as the fault \<open>DivisionByZero\<close>.
\<close>

theorem Odometry_initial:
  "pose_x (Odometry n) = 0 \<and> pose_y (Odometry n) = 0 \<and> heading (Odometry n) = 0
   \<and> linear_vel (Odometry n) = 0 \<and> angular_vel (Odometry n) = 0
   \<and> left_wheel_old_pos (Odometry n) = 0 \<and> right_wheel_old_pos (Odometry n) = 0
   \<and> timestamp (Odometry n) = 0
   \<and> wheel_separation (Odometry n) = 0
   \<and> left_wheel_radius (Odometry n) = 0 \<and> right_wheel_radius (Odometry n) = 0
   \<and> updateWithVelEst (Odometry n) left_pos right_pos time = Inl DivisionByZero
   \<and> update (Odometry n) left_pos right_pos left_vel right_vel time = Inl DivisionByZero
   \<and> updateWithVelEst (init (Odometry n) t0) left_pos right_pos time = Inl DivisionByZero
   \<and> update (init (Odometry n) t0) left_pos right_pos left_vel right_vel time = Inl DivisionByZero"
  by (simp add: Odometry_def init_def resetAccumulators_def updateWithVelEst_def update_def Let_def)

section \<open>The new pose depends on the old pose, the method and the increment only\<close>

lemma pose_update_eq_iff:
  "s\<lparr>pose_x := a, pose_y := b, heading := c\<rparr> = s\<lparr>pose_x := a', pose_y := b', heading := c'\<rparr>
     \<longleftrightarrow> a = a' \<and> b = b' \<and> c = c'"
  by (cases s) auto

lemma call_integrate_fun_agree:
  assumes "call_integrate_fun s l a = Inr (s\<lparr>pose_x := px, pose_y := py, heading := h\<rparr>)"
    and "integrate_fun t = integrate_fun s"
    and "pose_x t = pose_x s" and "pose_y t = pose_y s" and "heading t = heading s"
  shows "call_integrate_fun t l a = Inr (t\<lparr>pose_x := px, pose_y := py, heading := h\<rparr>)"
proof -
  obtain qx qy where t: "call_integrate_fun t l a
      = Inr (t\<lparr>pose_x := qx, pose_y := qy, heading := heading t + a\<rparr>)"
    using call_integrate_fun_frame by blast
  have "pose_x (s\<lparr>pose_x := px, pose_y := py, heading := h\<rparr>) = qx
      \<and> pose_y (s\<lparr>pose_x := px, pose_y := py, heading := h\<rparr>) = qy
      \<and> heading (s\<lparr>pose_x := px, pose_y := py, heading := h\<rparr>) = heading t + a"
    using assms t
    by (cases "integrate_fun s")
       (auto simp add: call_integrate_fun_def integrateExact_Inr integrateRungeKutta2_def Let_def
          heading_update_last pose_update_eq_iff split: if_splits)
  then show ?thesis using t by simp
qed

section \<open>updateOpenLoop\<close>

lemma updateOpenLoop_Inr:
  "\<exists>px py. updateOpenLoop s l a t
     = Inr (s\<lparr>linear_vel := l, angular_vel := a, timestamp := t,
              pose_x := px, pose_y := py, heading := heading s + a * (t - timestamp s)\<rparr>)
     \<and> call_integrate_fun s (l * (t - timestamp s)) (a * (t - timestamp s))
        = Inr (s\<lparr>pose_x := px, pose_y := py, heading := heading s + a * (t - timestamp s)\<rparr>)"
proof -
  obtain px py where step: "call_integrate_fun s (l * (t - timestamp s)) (a * (t - timestamp s))
     = Inr (s\<lparr>pose_x := px, pose_y := py, heading := heading s + a * (t - timestamp s)\<rparr>)"
    using call_integrate_fun_frame by blast
  have "call_integrate_fun (s\<lparr>linear_vel := l, angular_vel := a, timestamp := t\<rparr>)
          (l * (t - timestamp s)) (a * (t - timestamp s))
     = Inr (s\<lparr>linear_vel := l, angular_vel := a, timestamp := t,
              pose_x := px, pose_y := py, heading := heading s + a * (t - timestamp s)\<rparr>)"
    using call_integrate_fun_agree [OF step, of "s\<lparr>linear_vel := l, angular_vel := a, timestamp := t\<rparr>"]
    by simp
  then have "updateOpenLoop s l a t
     = Inr (s\<lparr>linear_vel := l, angular_vel := a, timestamp := t,
              pose_x := px, pose_y := py, heading := heading s + a * (t - timestamp s)\<rparr>)"
    by (simp add: updateOpenLoop_def Let_def)
  with step show ?thesis by blast
qed

text \<open>
  Claim C4. \<^verbatim>\<open>updateOpenLoop\<close> always returns. It stores \<open>(l, a)\<close> as the velocity
  estimate, stores \<open>t\<close> as the timestamp whatever the elapsed time is, and integrates
  the pose with the increment \<open>(l * dt, a * dt)\<close>, where \<open>dt\<close> is \<open>t\<close> minus the
  timestamp before the call; no other field changes. With \<open>l = 1\<close>, \<open>a = 0\<close> and
  \<open>dt = 2\<close>, x grows by \<open>2 * cos heading\<close>, y by \<open>2 * sin heading\<close>, the heading
  stays and the velocity estimate is \<open>(1, 0)\<close>; from heading 0, x grows by 2 and y
  stays.
\<close>

theorem updateOpenLoop_effect:
  "(\<exists>px py. updateOpenLoop s l a t
       = Inr (s\<lparr>linear_vel := l, angular_vel := a, timestamp := t,
                pose_x := px, pose_y := py, heading := heading s + a * (t - timestamp s)\<rparr>)
       \<and> call_integrate_fun s (l * (t - timestamp s)) (a * (t - timestamp s))
          = Inr (s\<lparr>pose_x := px, pose_y := py, heading := heading s + a * (t - timestamp s)\<rparr>))
   \<and> (t - timestamp s = 2 \<longrightarrow>
        updateOpenLoop s 1 0 t
          = Inr (s\<lparr>linear_vel := 1, angular_vel := 0, timestamp := t,
                   pose_x := pose_x s + 2 * cos (heading s),
                   pose_y := pose_y s + 2 * sin (heading s),
                   heading := heading s\<rparr>))
   \<and> (t - timestamp s = 2 \<and> heading s = 0 \<longrightarrow>
        updateOpenLoop s 1 0 t
          = Inr (s\<lparr>linear_vel := 1, angular_vel := 0, timestamp := t,
                   pose_x := pose_x s + 2, pose_y := pose_y s, heading := 0\<rparr>))"
proof -
  have two: "updateOpenLoop s 1 0 t
          = Inr (s\<lparr>linear_vel := 1, angular_vel := 0, timestamp := t,
                   pose_x := pose_x s + 2 * cos (heading s),
                   pose_y := pose_y s + 2 * sin (heading s),
                   heading := heading s\<rparr>)" if "t - timestamp s = 2"
    using that
    by (cases "integrate_fun s")
       (simp_all add: updateOpenLoop_def call_integrate_fun_def integrateExact_Inr
          integrateRungeKutta2_def Let_def)
  have zero: "updateOpenLoop s 1 0 t
          = Inr (s\<lparr>linear_vel := 1, angular_vel := 0, timestamp := t,
                   pose_x := pose_x s + 2, pose_y := pose_y s, heading := 0\<rparr>)"
    if "t - timestamp s = 2" and "heading s = 0"
    using two [OF that(1)] that(2) by simp
  from updateOpenLoop_Inr [of s l a t] two zero show ?thesis by blast
qed

theorem updateOpenLoop_effect_witness:
  "(5 :: real) - timestamp (init (Odometry 1) 3) = 2 \<and> heading (init (Odometry 1) 3) = 0
   \<and> updateOpenLoop (init (Odometry 1) 3) 1 0 5
        = Inr ((init (Odometry 1) 3)\<lparr>linear_vel := 1, angular_vel := 0, timestamp := 5,
                 pose_x := 2, pose_y := 0, heading := 0\<rparr>)"
  using updateOpenLoop_effect [where s = "init (Odometry 1) 3" and t = 5]
  by (simp add: init_def resetAccumulators_def Odometry_def)

section \<open>The encoder-based updates, as state transformers\<close>

lemma update_Inr:
  assumes "wheel_separation s \<noteq> 0"
  shows "\<exists>px py.
     update s lp rp lv rv t
       = Inr (True,
           s\<lparr>linear_vel := (lv + rv) * ((left_wheel_radius s + right_wheel_radius s) * (1 / 2)) / 2,
             angular_vel := (left_wheel_radius s + right_wheel_radius s) * (1 / 2) * (rv - lv)
                              / wheel_separation s,
             left_wheel_old_pos := lp * left_wheel_radius s,
             right_wheel_old_pos := rp * right_wheel_radius s,
             pose_x := px, pose_y := py,
             heading := heading s + encoder_angular s lp rp\<rparr>)
     \<and> call_integrate_fun s (encoder_linear s lp rp) (encoder_angular s lp rp)
         = Inr (s\<lparr>pose_x := px, pose_y := py, heading := heading s + encoder_angular s lp rp\<rparr>)"
proof -
  obtain px py where step:
    "call_integrate_fun s (encoder_linear s lp rp) (encoder_angular s lp rp)
       = Inr (s\<lparr>pose_x := px, pose_y := py, heading := heading s + encoder_angular s lp rp\<rparr>)"
    using call_integrate_fun_frame by blast
  let ?t = "s\<lparr>linear_vel := (lv + rv) * ((left_wheel_radius s + right_wheel_radius s) * (1 / 2)) / 2,
             angular_vel := (left_wheel_radius s + right_wheel_radius s) * (1 / 2) * (rv - lv)
                              / wheel_separation s,
             left_wheel_old_pos := lp * left_wheel_radius s,
             right_wheel_old_pos := rp * right_wheel_radius s\<rparr>"
  have "call_integrate_fun ?t (encoder_linear s lp rp) (encoder_angular s lp rp)
       = Inr (?t\<lparr>pose_x := px, pose_y := py, heading := heading s + encoder_angular s lp rp\<rparr>)"
    using call_integrate_fun_agree [OF step, of ?t] by simp
  then have "update s lp rp lv rv t
       = Inr (True, ?t\<lparr>pose_x := px, pose_y := py, heading := heading s + encoder_angular s lp rp\<rparr>)"
    using assms by (simp add: update_def Let_def)
  with step show ?thesis by blast
qed

lemma updateWithVelEst_short:
  assumes "wheel_separation s \<noteq> 0" and "t - timestamp s < 1 / 10000"
  shows "\<exists>px py.
     updateWithVelEst s lp rp t
       = Inr (False,
           s\<lparr>left_wheel_old_pos := lp * left_wheel_radius s,
             right_wheel_old_pos := rp * right_wheel_radius s,
             pose_x := px, pose_y := py,
             heading := heading s + encoder_angular s lp rp\<rparr>)
     \<and> call_integrate_fun s (encoder_linear s lp rp) (encoder_angular s lp rp)
         = Inr (s\<lparr>pose_x := px, pose_y := py, heading := heading s + encoder_angular s lp rp\<rparr>)"
proof -
  obtain px py where step:
    "call_integrate_fun s (encoder_linear s lp rp) (encoder_angular s lp rp)
       = Inr (s\<lparr>pose_x := px, pose_y := py, heading := heading s + encoder_angular s lp rp\<rparr>)"
    using call_integrate_fun_frame by blast
  let ?t = "s\<lparr>left_wheel_old_pos := lp * left_wheel_radius s,
             right_wheel_old_pos := rp * right_wheel_radius s\<rparr>"
  have "call_integrate_fun ?t (encoder_linear s lp rp) (encoder_angular s lp rp)
       = Inr (?t\<lparr>pose_x := px, pose_y := py, heading := heading s + encoder_angular s lp rp\<rparr>)"
    using call_integrate_fun_agree [OF step, of ?t] by simp
  then have "updateWithVelEst s lp rp t
       = Inr (False, ?t\<lparr>pose_x := px, pose_y := py, heading := heading s + encoder_angular s lp rp\<rparr>)"
    using assms by (simp add: updateWithVelEst_def Let_def)
  with step show ?thesis by blast
qed

lemma rolling_mean_accumulate:
  assumes "0 < window_size a"
  shows "rolling_mean (accumulate a v)
     = Inr (rolling_sum (accumulate a v) / real (length (rolling_window (accumulate a v))))"
proof -
  have "rolling_window (accumulate a v) \<noteq> []"
    using assms by (cases "rolling_window a") (auto simp add: accumulate_def Let_def)
  then show ?thesis by (simp add: rolling_mean_def)
qed

lemma updateWithVelEst_long:
  assumes "wheel_separation s \<noteq> 0" and "\<not> t - timestamp s < 1 / 10000"
    and "0 < window_size (linear_accum s)" and "0 < window_size (angular_accum s)"
  shows "\<exists>px py lm am.
     updateWithVelEst s lp rp t
       = Inr (True,
           s\<lparr>left_wheel_old_pos := lp * left_wheel_radius s,
             right_wheel_old_pos := rp * right_wheel_radius s,
             pose_x := px, pose_y := py,
             heading := heading s + encoder_angular s lp rp,
             timestamp := t,
             linear_accum := accumulate (linear_accum s) (encoder_linear s lp rp / (t - timestamp s)),
             angular_accum := accumulate (angular_accum s) (encoder_angular s lp rp / (t - timestamp s)),
             linear_vel := lm, angular_vel := am\<rparr>)
     \<and> call_integrate_fun s (encoder_linear s lp rp) (encoder_angular s lp rp)
         = Inr (s\<lparr>pose_x := px, pose_y := py, heading := heading s + encoder_angular s lp rp\<rparr>)
     \<and> rolling_mean (accumulate (linear_accum s) (encoder_linear s lp rp / (t - timestamp s))) = Inr lm
     \<and> rolling_mean (accumulate (angular_accum s) (encoder_angular s lp rp / (t - timestamp s))) = Inr am"
proof -
  obtain px py where step:
    "call_integrate_fun s (encoder_linear s lp rp) (encoder_angular s lp rp)
       = Inr (s\<lparr>pose_x := px, pose_y := py, heading := heading s + encoder_angular s lp rp\<rparr>)"
    using call_integrate_fun_frame by blast
  let ?t = "s\<lparr>left_wheel_old_pos := lp * left_wheel_radius s,
             right_wheel_old_pos := rp * right_wheel_radius s\<rparr>"
  have call: "call_integrate_fun ?t (encoder_linear s lp rp) (encoder_angular s lp rp)
       = Inr (?t\<lparr>pose_x := px, pose_y := py, heading := heading s + encoder_angular s lp rp\<rparr>)"
    using call_integrate_fun_agree [OF step, of ?t] by simp
  have dt: "t - timestamp s \<noteq> 0" using assms(2) by auto
  obtain lm where lm: "rolling_mean (accumulate (linear_accum s)
      (encoder_linear s lp rp / (t - timestamp s))) = Inr lm"
    using rolling_mean_accumulate [OF assms(3)] by blast
  obtain am where am: "rolling_mean (accumulate (angular_accum s)
      (encoder_angular s lp rp / (t - timestamp s))) = Inr am"
    using rolling_mean_accumulate [OF assms(4)] by blast
  have "updateWithVelEst s lp rp t
       = Inr (True,
           s\<lparr>left_wheel_old_pos := lp * left_wheel_radius s,
             right_wheel_old_pos := rp * right_wheel_radius s,
             pose_x := px, pose_y := py,
             heading := heading s + encoder_angular s lp rp,
             timestamp := t,
             linear_accum := accumulate (linear_accum s) (encoder_linear s lp rp / (t - timestamp s)),
             angular_accum := accumulate (angular_accum s) (encoder_angular s lp rp / (t - timestamp s)),
             linear_vel := lm, angular_vel := am\<rparr>)"
    using assms(1,2) dt call lm am by (simp add: updateWithVelEst_def Let_def)
  with step lm am show ?thesis by blast
qed

lemma updateWithVelEst_cumulative:
  assumes sep: "wheel_separation s \<noteq> 0"
    and short: "ta - timestamp s < 1 / 10000"
    and long: "1 / 10000 \<le> tb - timestamp s"
    and wl: "0 < window_size (linear_accum s)" and wa: "0 < window_size (angular_accum s)"
  shows "\<exists>sa sb sc.
      updateWithVelEst s lpa rpa ta = Inr (False, sa)
    \<and> updateWithVelEst sa lpb rpb tb = Inr (True, sb)
    \<and> left_wheel_old_pos sb = lpb * left_wheel_radius s
    \<and> right_wheel_old_pos sb = rpb * right_wheel_radius s
    \<and> heading sb = heading s + encoder_angular s lpb rpb
    \<and> encoder_linear s lpa rpa + encoder_linear sa lpb rpb = encoder_linear s lpb rpb
    \<and> encoder_angular s lpa rpa + encoder_angular sa lpb rpb = encoder_angular s lpb rpb
    \<and> integrate_all s [(encoder_linear s lpa rpa, encoder_angular s lpa rpa),
                        (encoder_linear sa lpb rpb, encoder_angular sa lpb rpb)] = Inr sc
    \<and> pose_x sb = pose_x sc \<and> pose_y sb = pose_y sc \<and> heading sb = heading sc
    \<and> timestamp sb = tb
    \<and> linear_accum sb
        = accumulate (linear_accum s) (encoder_linear sa lpb rpb / (tb - timestamp s))
    \<and> angular_accum sb
        = accumulate (angular_accum s) (encoder_angular sa lpb rpb / (tb - timestamp s))"
proof -
  obtain px py where
    a: "updateWithVelEst s lpa rpa ta
       = Inr (False,
           s\<lparr>left_wheel_old_pos := lpa * left_wheel_radius s,
             right_wheel_old_pos := rpa * right_wheel_radius s,
             pose_x := px, pose_y := py,
             heading := heading s + encoder_angular s lpa rpa\<rparr>)"
    and step1: "call_integrate_fun s (encoder_linear s lpa rpa) (encoder_angular s lpa rpa)
         = Inr (s\<lparr>pose_x := px, pose_y := py, heading := heading s + encoder_angular s lpa rpa\<rparr>)"
    using updateWithVelEst_short [OF sep short] by blast
  define sa where "sa = s\<lparr>left_wheel_old_pos := lpa * left_wheel_radius s,
             right_wheel_old_pos := rpa * right_wheel_radius s,
             pose_x := px, pose_y := py,
             heading := heading s + encoder_angular s lpa rpa\<rparr>"
  define sm where "sm = s\<lparr>pose_x := px, pose_y := py, heading := heading s + encoder_angular s lpa rpa\<rparr>"
  have sa_sep: "wheel_separation sa \<noteq> 0" using sep by (simp add: sa_def)
  have sa_long: "\<not> tb - timestamp sa < 1 / 10000" using long by (simp add: sa_def)
  have sa_wl: "0 < window_size (linear_accum sa)" using wl by (simp add: sa_def)
  have sa_wa: "0 < window_size (angular_accum sa)" using wa by (simp add: sa_def)
  obtain qx qy lm am where
    b: "updateWithVelEst sa lpb rpb tb
       = Inr (True,
           sa\<lparr>left_wheel_old_pos := lpb * left_wheel_radius sa,
             right_wheel_old_pos := rpb * right_wheel_radius sa,
             pose_x := qx, pose_y := qy,
             heading := heading sa + encoder_angular sa lpb rpb,
             timestamp := tb,
             linear_accum := accumulate (linear_accum sa) (encoder_linear sa lpb rpb / (tb - timestamp sa)),
             angular_accum := accumulate (angular_accum sa) (encoder_angular sa lpb rpb / (tb - timestamp sa)),
             linear_vel := lm, angular_vel := am\<rparr>)"
    and step2: "call_integrate_fun sa (encoder_linear sa lpb rpb) (encoder_angular sa lpb rpb)
         = Inr (sa\<lparr>pose_x := qx, pose_y := qy, heading := heading sa + encoder_angular sa lpb rpb\<rparr>)"
    using updateWithVelEst_long [OF sa_sep sa_long sa_wl sa_wa] by blast
  have lin: "encoder_linear s lpa rpa + encoder_linear sa lpb rpb = encoder_linear s lpb rpb"
    by (simp add: sa_def algebra_simps)
  have ang: "encoder_angular s lpa rpa + encoder_angular sa lpb rpb = encoder_angular s lpb rpb"
    using sep by (simp add: sa_def field_simps)
  have step2': "call_integrate_fun sm (encoder_linear sa lpb rpb) (encoder_angular sa lpb rpb)
         = Inr (sm\<lparr>pose_x := qx, pose_y := qy, heading := heading sa + encoder_angular sa lpb rpb\<rparr>)"
    using call_integrate_fun_agree [OF step2, of sm] by (simp add: sa_def sm_def)
  have all: "integrate_all s [(encoder_linear s lpa rpa, encoder_angular s lpa rpa),
                        (encoder_linear sa lpb rpb, encoder_angular sa lpb rpb)]
       = Inr (sm\<lparr>pose_x := qx, pose_y := qy, heading := heading sa + encoder_angular sa lpb rpb\<rparr>)"
    using step1 step2' by (simp add: sm_def)
  have hd: "heading sa + encoder_angular sa lpb rpb = heading s + encoder_angular s lpb rpb"
    using ang by (simp add: sa_def)
  show ?thesis
    apply (rule exI [of _ sa])
    apply (rule exI)
    apply (rule exI)
    apply (intro conjI)
                 apply (simp add: a sa_def)
                apply (rule b)
               apply (simp add: sa_def)
              apply (simp add: sa_def)
             apply (simp add: hd)
            apply (rule lin)
           apply (rule ang)
          apply (rule all)
         apply simp
        apply simp
       apply simp
      apply simp
     apply (simp add: sa_def)
    apply (simp add: sa_def)
    done
qed

section \<open>updateWithVelEst\<close>

text \<open>
  Claim C1. Let the wheel separation be nonzero. A call of \<^verbatim>\<open>updateWithVelEst\<close>
  with elapsed time below \<open>1 / 10000\<close> returns false; the encoder memory holds the new
  wheel distances and the pose has been integrated with the increments of the call,
  while velocity estimate, timestamp and both accumulators are unchanged. A call with
  elapsed time at least \<open>1 / 10000\<close> (and windows of capacity at least 1) returns
  true, advances memory and pose in the same way, stores the time, inserts
  \<open>linear / dt\<close> and \<open>angular / dt\<close> into the two accumulators and sets the velocity
  estimate to their means. A short call followed by a long one leaves the encoder memory
  at the last positions, and the pose is the one obtained by integrating the two
  increments one after the other; the two increments add up to the increment from the
  positions before the short call, so the heading is the old one plus that cumulative
  angular increment. (The samples the long call inserts are its own increments divided
  by the time elapsed since the last stored timestamp.)
\<close>

theorem updateWithVelEst_effect:
  assumes "wheel_separation s \<noteq> 0"
  shows
   "(t - timestamp s < 1 / 10000 \<longrightarrow>
      (\<exists>s' px py.
          updateWithVelEst s lp rp t = Inr (False, s')
        \<and> s' = s\<lparr>left_wheel_old_pos := lp * left_wheel_radius s,
                 right_wheel_old_pos := rp * right_wheel_radius s,
                 pose_x := px, pose_y := py,
                 heading := heading s + encoder_angular s lp rp\<rparr>
        \<and> call_integrate_fun s (encoder_linear s lp rp) (encoder_angular s lp rp)
            = Inr (s\<lparr>pose_x := px, pose_y := py, heading := heading s + encoder_angular s lp rp\<rparr>)
        \<and> linear_vel s' = linear_vel s \<and> angular_vel s' = angular_vel s
        \<and> timestamp s' = timestamp s
        \<and> linear_accum s' = linear_accum s \<and> angular_accum s' = angular_accum s))
    \<and> (1 / 10000 \<le> t - timestamp s
        \<and> 0 < window_size (linear_accum s) \<and> 0 < window_size (angular_accum s) \<longrightarrow>
      (\<exists>s' px py lm am.
          updateWithVelEst s lp rp t = Inr (True, s')
        \<and> s' = s\<lparr>left_wheel_old_pos := lp * left_wheel_radius s,
                 right_wheel_old_pos := rp * right_wheel_radius s,
                 pose_x := px, pose_y := py,
                 heading := heading s + encoder_angular s lp rp,
                 timestamp := t,
                 linear_accum := accumulate (linear_accum s) (encoder_linear s lp rp / (t - timestamp s)),
                 angular_accum := accumulate (angular_accum s) (encoder_angular s lp rp / (t - timestamp s)),
                 linear_vel := lm, angular_vel := am\<rparr>
        \<and> call_integrate_fun s (encoder_linear s lp rp) (encoder_angular s lp rp)
            = Inr (s\<lparr>pose_x := px, pose_y := py, heading := heading s + encoder_angular s lp rp\<rparr>)
        \<and> timestamp s' = t
        \<and> rolling_mean (linear_accum s') = Inr lm \<and> linear_vel s' = lm
        \<and> rolling_mean (angular_accum s') = Inr am \<and> angular_vel s' = am))
    \<and> (ta - timestamp s < 1 / 10000 \<and> 1 / 10000 \<le> tb - timestamp s
        \<and> 0 < window_size (linear_accum s) \<and> 0 < window_size (angular_accum s) \<longrightarrow>
      (\<exists>sa sb sc.
          updateWithVelEst s lpa rpa ta = Inr (False, sa)
        \<and> updateWithVelEst sa lpb rpb tb = Inr (True, sb)
        \<and> left_wheel_old_pos sb = lpb * left_wheel_radius s
        \<and> right_wheel_old_pos sb = rpb * right_wheel_radius s
        \<and> heading sb = heading s + encoder_angular s lpb rpb
        \<and> encoder_linear s lpa rpa + encoder_linear sa lpb rpb = encoder_linear s lpb rpb
        \<and> encoder_angular s lpa rpa + encoder_angular sa lpb rpb = encoder_angular s lpb rpb
        \<and> integrate_all s [(encoder_linear s lpa rpa, encoder_angular s lpa rpa),
                            (encoder_linear sa lpb rpb, encoder_angular sa lpb rpb)] = Inr sc
        \<and> pose_x sb = pose_x sc \<and> pose_y sb = pose_y sc \<and> heading sb = heading sc
        \<and> timestamp sb = tb
        \<and> linear_accum sb
            = accumulate (linear_accum s) (encoder_linear sa lpb rpb / (tb - timestamp s))
        \<and> angular_accum sb
            = accumulate (angular_accum s) (encoder_angular sa lpb rpb / (tb - timestamp s))))"
proof (intro conjI impI)
  assume short: "t - timestamp s < 1 / 10000"
  from updateWithVelEst_short [OF assms short, of lp rp]
  obtain px py where a:
    "updateWithVelEst s lp rp t
       = Inr (False,
           s\<lparr>left_wheel_old_pos := lp * left_wheel_radius s,
             right_wheel_old_pos := rp * right_wheel_radius s,
             pose_x := px, pose_y := py,
             heading := heading s + encoder_angular s lp rp\<rparr>)"
    "call_integrate_fun s (encoder_linear s lp rp) (encoder_angular s lp rp)
         = Inr (s\<lparr>pose_x := px, pose_y := py, heading := heading s + encoder_angular s lp rp\<rparr>)"
    by blast
  then show "\<exists>s' px py.
          updateWithVelEst s lp rp t = Inr (False, s')
        \<and> s' = s\<lparr>left_wheel_old_pos := lp * left_wheel_radius s,
                 right_wheel_old_pos := rp * right_wheel_radius s,
                 pose_x := px, pose_y := py,
                 heading := heading s + encoder_angular s lp rp\<rparr>
        \<and> call_integrate_fun s (encoder_linear s lp rp) (encoder_angular s lp rp)
            = Inr (s\<lparr>pose_x := px, pose_y := py, heading := heading s + encoder_angular s lp rp\<rparr>)
        \<and> linear_vel s' = linear_vel s \<and> angular_vel s' = angular_vel s
        \<and> timestamp s' = timestamp s
        \<and> linear_accum s' = linear_accum s \<and> angular_accum s' = angular_accum s"
    by (intro exI [of _ px] exI [of _ py]
        exI [of _ "s\<lparr>left_wheel_old_pos := lp * left_wheel_radius s,
                 right_wheel_old_pos := rp * right_wheel_radius s,
                 pose_x := px, pose_y := py,
                 heading := heading s + encoder_angular s lp rp\<rparr>"]) simp
next
  assume long: "1 / 10000 \<le> t - timestamp s
        \<and> 0 < window_size (linear_accum s) \<and> 0 < window_size (angular_accum s)"
  then have nshort: "\<not> t - timestamp s < 1 / 10000" by simp
  from long updateWithVelEst_long [OF assms nshort, of lp rp]
  obtain px py lm am where b:
    "updateWithVelEst s lp rp t
       = Inr (True,
           s\<lparr>left_wheel_old_pos := lp * left_wheel_radius s,
             right_wheel_old_pos := rp * right_wheel_radius s,
             pose_x := px, pose_y := py,
             heading := heading s + encoder_angular s lp rp,
             timestamp := t,
             linear_accum := accumulate (linear_accum s) (encoder_linear s lp rp / (t - timestamp s)),
             angular_accum := accumulate (angular_accum s) (encoder_angular s lp rp / (t - timestamp s)),
             linear_vel := lm, angular_vel := am\<rparr>)"
    "call_integrate_fun s (encoder_linear s lp rp) (encoder_angular s lp rp)
         = Inr (s\<lparr>pose_x := px, pose_y := py, heading := heading s + encoder_angular s lp rp\<rparr>)"
    "rolling_mean (accumulate (linear_accum s) (encoder_linear s lp rp / (t - timestamp s))) = Inr lm"
    "rolling_mean (accumulate (angular_accum s) (encoder_angular s lp rp / (t - timestamp s))) = Inr am"
    by blast
  then show "\<exists>s' px py lm am.
          updateWithVelEst s lp rp t = Inr (True, s')
        \<and> s' = s\<lparr>left_wheel_old_pos := lp * left_wheel_radius s,
                 right_wheel_old_pos := rp * right_wheel_radius s,
                 pose_x := px, pose_y := py,
                 heading := heading s + encoder_angular s lp rp,
                 timestamp := t,
                 linear_accum := accumulate (linear_accum s) (encoder_linear s lp rp / (t - timestamp s)),
                 angular_accum := accumulate (angular_accum s) (encoder_angular s lp rp / (t - timestamp s)),
                 linear_vel := lm, angular_vel := am\<rparr>
        \<and> call_integrate_fun s (encoder_linear s lp rp) (encoder_angular s lp rp)
            = Inr (s\<lparr>pose_x := px, pose_y := py, heading := heading s + encoder_angular s lp rp\<rparr>)
        \<and> timestamp s' = t
        \<and> rolling_mean (linear_accum s') = Inr lm \<and> linear_vel s' = lm
        \<and> rolling_mean (angular_accum s') = Inr am \<and> angular_vel s' = am"
    by (intro exI [of _ px] exI [of _ py] exI [of _ lm] exI [of _ am]
        exI [of _ "s\<lparr>left_wheel_old_pos := lp * left_wheel_radius s,
                 right_wheel_old_pos := rp * right_wheel_radius s,
                 pose_x := px, pose_y := py,
                 heading := heading s + encoder_angular s lp rp,
                 timestamp := t,
                 linear_accum := accumulate (linear_accum s) (encoder_linear s lp rp / (t - timestamp s)),
                 angular_accum := accumulate (angular_accum s) (encoder_angular s lp rp / (t - timestamp s)),
                 linear_vel := lm, angular_vel := am\<rparr>"]) simp
next
  assume two: "ta - timestamp s < 1 / 10000 \<and> 1 / 10000 \<le> tb - timestamp s
        \<and> 0 < window_size (linear_accum s) \<and> 0 < window_size (angular_accum s)"
  then show "\<exists>sa sb sc.
          updateWithVelEst s lpa rpa ta = Inr (False, sa)
        \<and> updateWithVelEst sa lpb rpb tb = Inr (True, sb)
        \<and> left_wheel_old_pos sb = lpb * left_wheel_radius s
        \<and> right_wheel_old_pos sb = rpb * right_wheel_radius s
        \<and> heading sb = heading s + encoder_angular s lpb rpb
        \<and> encoder_linear s lpa rpa + encoder_linear sa lpb rpb = encoder_linear s lpb rpb
        \<and> encoder_angular s lpa rpa + encoder_angular sa lpb rpb = encoder_angular s lpb rpb
        \<and> integrate_all s [(encoder_linear s lpa rpa, encoder_angular s lpa rpa),
                            (encoder_linear sa lpb rpb, encoder_angular sa lpb rpb)] = Inr sc
        \<and> pose_x sb = pose_x sc \<and> pose_y sb = pose_y sc \<and> heading sb = heading sc
        \<and> timestamp sb = tb
        \<and> linear_accum sb
            = accumulate (linear_accum s) (encoder_linear sa lpb rpb / (tb - timestamp s))
        \<and> angular_accum sb
            = accumulate (angular_accum s) (encoder_angular sa lpb rpb / (tb - timestamp s))"
    using updateWithVelEst_cumulative [OF assms, of ta tb lpa rpa lpb rpb] by blast
qed

theorem updateWithVelEst_effect_witness:
  "wheel_separation (setWheelParams (Odometry 2) 1 1 1) \<noteq> 0
   \<and> 0 - timestamp (setWheelParams (Odometry 2) 1 1 1) < 1 / 10000
   \<and> 1 / 10000 \<le> 2 - timestamp (setWheelParams (Odometry 2) 1 1 1)
   \<and> 0 < window_size (linear_accum (setWheelParams (Odometry 2) 1 1 1))
   \<and> 0 < window_size (angular_accum (setWheelParams (Odometry 2) 1 1 1))
   \<and> updateWithVelEst (setWheelParams (Odometry 2) 1 1 1) 1 1 0
       = Inr (False, (setWheelParams (Odometry 2) 1 1 1)
               \<lparr>left_wheel_old_pos := 1, right_wheel_old_pos := 1,
                 pose_x := 1, pose_y := 0, heading := 0\<rparr>)
   \<and> updateWithVelEst (setWheelParams (Odometry 2) 1 1 1) 1 1 2
       = Inr (True, (setWheelParams (Odometry 2) 1 1 1)
               \<lparr>left_wheel_old_pos := 1, right_wheel_old_pos := 1,
                 pose_x := 1, pose_y := 0, heading := 0, timestamp := 2,
                 linear_accum := \<lparr>window_size = 2, rolling_window = [1 / 2], rolling_sum = 1 / 2\<rparr>,
                 angular_accum := \<lparr>window_size = 2, rolling_window = [0], rolling_sum = 0\<rparr>,
                 linear_vel := 1 / 2, angular_vel := 0\<rparr>)
   \<and> (\<exists>sa sb. updateWithVelEst (setWheelParams (Odometry 2) 1 1 1) 1 1 0 = Inr (False, sa)
        \<and> updateWithVelEst sa 3 3 2 = Inr (True, sb)
        \<and> left_wheel_old_pos sb = 3 \<and> right_wheel_old_pos sb = 3 \<and> heading sb = 0)"
  using updateWithVelEst_effect [where s = "setWheelParams (Odometry 2) 1 1 1"
      and lp = 1 and rp = 1 and t = 0 and ta = 0 and tb = 2 and lpa = 1 and rpa = 1
      and lpb = 3 and rpb = 3]
    updateWithVelEst_effect [where s = "setWheelParams (Odometry 2) 1 1 1"
      and lp = 1 and rp = 1 and t = 2]
  apply (simp add: setWheelParams_def Odometry_def RollingMeanAcc_def)
  apply (simp add: updateWithVelEst_def call_integrate_fun_def integrateExact_Inr
      integrateRungeKutta2_def accumulate_def rolling_mean_def Let_def)
  done

section \<open>update\<close>

lemma call_integrate_fun_zero:
  "call_integrate_fun s 0 0 = Inr s"
  by (cases "integrate_fun s")
     (simp_all add: call_integrate_fun_def integrateExact_Inr integrateRungeKutta2_def Let_def)

text \<open>
  Claim C3. Let the wheel separation be nonzero. Every call of \<^verbatim>\<open>update\<close> returns
  true. It sets the velocity estimate to \<open>r * (lv + rv) / 2\<close> and
  \<open>r * (rv - lv) / separation\<close> with \<open>r = (left radius + right radius) / 2\<close>, leaving
  both accumulators untouched; it stores the new wheel distances in the encoder memory
  and integrates the pose with the increments computed from the positions. Whenever
  \<^verbatim>\<open>updateWithVelEst\<close> is called on the same state with the same positions (with a
  short interval, or with windows of capacity at least 1), it returns with the same
  pose and the same encoder memory.
\<close>

theorem update_effect:
  assumes "wheel_separation s \<noteq> 0"
  shows
   "(\<exists>s' px py.
        update s lp rp lv rv t = Inr (True, s')
      \<and> s' = s\<lparr>linear_vel := (lv + rv) * ((left_wheel_radius s + right_wheel_radius s) * (1 / 2)) / 2,
               angular_vel := (left_wheel_radius s + right_wheel_radius s) * (1 / 2) * (rv - lv)
                                / wheel_separation s,
               left_wheel_old_pos := lp * left_wheel_radius s,
               right_wheel_old_pos := rp * right_wheel_radius s,
               pose_x := px, pose_y := py,
               heading := heading s + encoder_angular s lp rp\<rparr>
      \<and> call_integrate_fun s (encoder_linear s lp rp) (encoder_angular s lp rp)
          = Inr (s\<lparr>pose_x := px, pose_y := py, heading := heading s + encoder_angular s lp rp\<rparr>)
      \<and> linear_vel s' = (left_wheel_radius s + right_wheel_radius s) / 2 * (lv + rv) / 2
      \<and> angular_vel s' = (left_wheel_radius s + right_wheel_radius s) / 2 * (rv - lv)
                           / wheel_separation s
      \<and> linear_accum s' = linear_accum s \<and> angular_accum s' = angular_accum s
      \<and> ((tv - timestamp s < 1 / 10000
           \<or> 0 < window_size (linear_accum s) \<and> 0 < window_size (angular_accum s)) \<longrightarrow>
          (\<exists>b s''. updateWithVelEst s lp rp tv = Inr (b, s'')
             \<and> pose_x s'' = pose_x s' \<and> pose_y s'' = pose_y s' \<and> heading s'' = heading s'
             \<and> left_wheel_old_pos s'' = left_wheel_old_pos s'
             \<and> right_wheel_old_pos s'' = right_wheel_old_pos s')))"
proof -
  obtain px py where
    u: "update s lp rp lv rv t
       = Inr (True,
           s\<lparr>linear_vel := (lv + rv) * ((left_wheel_radius s + right_wheel_radius s) * (1 / 2)) / 2,
             angular_vel := (left_wheel_radius s + right_wheel_radius s) * (1 / 2) * (rv - lv)
                              / wheel_separation s,
             left_wheel_old_pos := lp * left_wheel_radius s,
             right_wheel_old_pos := rp * right_wheel_radius s,
             pose_x := px, pose_y := py,
             heading := heading s + encoder_angular s lp rp\<rparr>)"
    and step: "call_integrate_fun s (encoder_linear s lp rp) (encoder_angular s lp rp)
         = Inr (s\<lparr>pose_x := px, pose_y := py, heading := heading s + encoder_angular s lp rp\<rparr>)"
    using update_Inr [OF assms] by blast
  have same: "\<exists>b s''. updateWithVelEst s lp rp tv = Inr (b, s'')
             \<and> pose_x s'' = px \<and> pose_y s'' = py \<and> heading s'' = heading s + encoder_angular s lp rp
             \<and> left_wheel_old_pos s'' = lp * left_wheel_radius s
             \<and> right_wheel_old_pos s'' = rp * right_wheel_radius s"
    if c: "tv - timestamp s < 1 / 10000
           \<or> 0 < window_size (linear_accum s) \<and> 0 < window_size (angular_accum s)"
  proof (cases "tv - timestamp s < 1 / 10000")
    case True
    from updateWithVelEst_short [OF assms True, of lp rp] step
    show ?thesis by (auto simp add: pose_update_eq_iff)
  next
    case False
    with c have w: "0 < window_size (linear_accum s)" "0 < window_size (angular_accum s)"
      by simp_all
    from updateWithVelEst_long [OF assms False w, of lp rp] step
    show ?thesis by (auto simp add: pose_update_eq_iff)
  qed
  show ?thesis
    apply (rule exI [of _ "s\<lparr>linear_vel := (lv + rv) * ((left_wheel_radius s + right_wheel_radius s) * (1 / 2)) / 2,
             angular_vel := (left_wheel_radius s + right_wheel_radius s) * (1 / 2) * (rv - lv)
                              / wheel_separation s,
             left_wheel_old_pos := lp * left_wheel_radius s,
             right_wheel_old_pos := rp * right_wheel_radius s,
             pose_x := px, pose_y := py,
             heading := heading s + encoder_angular s lp rp\<rparr>"])
    apply (rule exI [of _ px])
    apply (rule exI [of _ py])
    apply (intro conjI impI)
           apply (rule u)
          apply (rule refl)
         apply (rule step)
        apply (simp add: algebra_simps)
       apply (simp add: algebra_simps)
      apply simp
     apply simp
    using same apply simp
    done
qed

theorem update_effect_witness:
  "wheel_separation (setWheelParams (Odometry 2) 1 1 1) \<noteq> 0
   \<and> update (setWheelParams (Odometry 2) 1 1 1) 1 1 3 3 7
       = Inr (True, (setWheelParams (Odometry 2) 1 1 1)
               \<lparr>linear_vel := 3, angular_vel := 0,
                 left_wheel_old_pos := 1, right_wheel_old_pos := 1,
                 pose_x := 1, pose_y := 0, heading := 0\<rparr>)
   \<and> (0 - timestamp (setWheelParams (Odometry 2) 1 1 1) < 1 / 10000
       \<or> 0 < window_size (linear_accum (setWheelParams (Odometry 2) 1 1 1))
         \<and> 0 < window_size (angular_accum (setWheelParams (Odometry 2) 1 1 1)))
   \<and> (\<exists>b s''. updateWithVelEst (setWheelParams (Odometry 2) 1 1 1) 1 1 0 = Inr (b, s'')
         \<and> pose_x s'' = 1 \<and> pose_y s'' = 0 \<and> heading s'' = 0
         \<and> left_wheel_old_pos s'' = 1 \<and> right_wheel_old_pos s'' = 1)"
  using update_effect [where s = "setWheelParams (Odometry 2) 1 1 1"
      and lp = 1 and rp = 1 and lv = 3 and rv = 3 and t = 7 and tv = 0]
  apply (simp add: setWheelParams_def Odometry_def RollingMeanAcc_def)
  apply (simp add: update_def updateWithVelEst_def call_integrate_fun_def integrateExact_Inr
      integrateRungeKutta2_def Let_def)
  done

section \<open>What the velocity estimate and the pose of update depend on\<close>

lemma rates_injective:
  fixes r d :: real
  assumes "r \<noteq> 0" and "d \<noteq> 0"
    and "(lv + rv) * r / 2 = (lv' + rv') * r / 2"
    and "r * (rv - lv) / d = r * (rv' - lv') / d"
  shows "lv = lv' \<and> rv = rv'"
proof -
  from assms(1,3) have "lv + rv = lv' + rv'" by simp
  moreover from assms(1,2,4) have "rv - lv = rv' - lv'" by simp
  ultimately show ?thesis by linarith
qed

text \<open>
  Claim C5. Let the wheel separation be nonzero. Two calls of \<^verbatim>\<open>update\<close> with the
  same wheel rates, from states that agree on radii and separation, produce the same
  velocity estimate, whatever the positions, times and the rest of the states are. Two
  calls from one state with the same positions produce the same pose and encoder memory,
  whatever the rates are. When the positions equal the remembered ones the pose does not
  change. When the radii do not add up to zero, different pairs of rates give different
  velocity estimates.
\<close>

theorem update_noninterference:
  assumes "wheel_separation s \<noteq> 0"
  shows
   "(wheel_separation s' = wheel_separation s
      \<and> left_wheel_radius s' = left_wheel_radius s
      \<and> right_wheel_radius s' = right_wheel_radius s \<longrightarrow>
      (\<exists>u u'. update s lp rp lv rv t = Inr (True, u)
            \<and> update s' lp' rp' lv rv t' = Inr (True, u')
            \<and> linear_vel u = linear_vel u' \<and> angular_vel u = angular_vel u'))
    \<and> (\<exists>u u'. update s lp rp lv rv t = Inr (True, u)
            \<and> update s lp rp lv' rv' t' = Inr (True, u')
            \<and> pose_x u = pose_x u' \<and> pose_y u = pose_y u' \<and> heading u = heading u'
            \<and> left_wheel_old_pos u = left_wheel_old_pos u'
            \<and> right_wheel_old_pos u = right_wheel_old_pos u')
    \<and> (lp * left_wheel_radius s = left_wheel_old_pos s
        \<and> rp * right_wheel_radius s = right_wheel_old_pos s \<longrightarrow>
      (\<exists>u. update s lp rp lv rv t = Inr (True, u)
          \<and> pose_x u = pose_x s \<and> pose_y u = pose_y s \<and> heading u = heading s))
    \<and> (left_wheel_radius s + right_wheel_radius s \<noteq> 0 \<and> (lv, rv) \<noteq> (lv', rv') \<longrightarrow>
      (\<exists>u u'. update s lp rp lv rv t = Inr (True, u)
            \<and> update s lp rp lv' rv' t = Inr (True, u')
            \<and> (linear_vel u, angular_vel u) \<noteq> (linear_vel u', angular_vel u')))"
proof (intro conjI impI)
  assume agree: "wheel_separation s' = wheel_separation s
      \<and> left_wheel_radius s' = left_wheel_radius s
      \<and> right_wheel_radius s' = right_wheel_radius s"
  then have sep': "wheel_separation s' \<noteq> 0" using assms by simp
  from update_Inr [OF assms, of lp rp lv rv t] update_Inr [OF sep', of lp' rp' lv rv t'] agree
  show "\<exists>u u'. update s lp rp lv rv t = Inr (True, u)
            \<and> update s' lp' rp' lv rv t' = Inr (True, u')
            \<and> linear_vel u = linear_vel u' \<and> angular_vel u = angular_vel u'"
    by auto
next
  from update_Inr [OF assms, of lp rp lv rv t] update_Inr [OF assms, of lp rp lv' rv' t']
  show "\<exists>u u'. update s lp rp lv rv t = Inr (True, u)
            \<and> update s lp rp lv' rv' t' = Inr (True, u')
            \<and> pose_x u = pose_x u' \<and> pose_y u = pose_y u' \<and> heading u = heading u'
            \<and> left_wheel_old_pos u = left_wheel_old_pos u'
            \<and> right_wheel_old_pos u = right_wheel_old_pos u'"
    by (auto simp add: pose_update_eq_iff)
next
  assume still: "lp * left_wheel_radius s = left_wheel_old_pos s
        \<and> rp * right_wheel_radius s = right_wheel_old_pos s"
  then have lin0: "encoder_linear s lp rp = 0" and ang0: "encoder_angular s lp rp = 0"
    by simp_all
  obtain px py where
    u: "update s lp rp lv rv t
       = Inr (True,
           s\<lparr>linear_vel := (lv + rv) * ((left_wheel_radius s + right_wheel_radius s) * (1 / 2)) / 2,
             angular_vel := (left_wheel_radius s + right_wheel_radius s) * (1 / 2) * (rv - lv)
                              / wheel_separation s,
             left_wheel_old_pos := lp * left_wheel_radius s,
             right_wheel_old_pos := rp * right_wheel_radius s,
             pose_x := px, pose_y := py,
             heading := heading s + encoder_angular s lp rp\<rparr>)"
    and step: "call_integrate_fun s (encoder_linear s lp rp) (encoder_angular s lp rp)
         = Inr (s\<lparr>pose_x := px, pose_y := py, heading := heading s + encoder_angular s lp rp\<rparr>)"
    using update_Inr [OF assms] by blast
  have e: "s\<lparr>pose_x := px, pose_y := py, heading := heading s + encoder_angular s lp rp\<rparr> = s"
    using step call_integrate_fun_zero [of s] unfolding lin0 ang0 by simp
  have px: "px = pose_x s" using arg_cong [OF e, of pose_x] by simp
  have py: "py = pose_y s" using arg_cong [OF e, of pose_y] by simp
  have h: "heading s + encoder_angular s lp rp = heading s" using ang0 by linarith
  show "\<exists>u. update s lp rp lv rv t = Inr (True, u)
          \<and> pose_x u = pose_x s \<and> pose_y u = pose_y s \<and> heading u = heading s"
    by (simp only: u px py h) simp
next
  assume diff: "left_wheel_radius s + right_wheel_radius s \<noteq> 0 \<and> (lv, rv) \<noteq> (lv', rv')"
  then have r: "(left_wheel_radius s + right_wheel_radius s) * (1 / 2) \<noteq> 0" by simp
  from rates_injective [OF r assms, of lv rv lv' rv'] diff
  have "(lv + rv) * ((left_wheel_radius s + right_wheel_radius s) * (1 / 2)) / 2
          \<noteq> (lv' + rv') * ((left_wheel_radius s + right_wheel_radius s) * (1 / 2)) / 2
      \<or> (left_wheel_radius s + right_wheel_radius s) * (1 / 2) * (rv - lv) / wheel_separation s
          \<noteq> (left_wheel_radius s + right_wheel_radius s) * (1 / 2) * (rv' - lv') / wheel_separation s"
    by blast
  with update_Inr [OF assms, of lp rp lv rv t] update_Inr [OF assms, of lp rp lv' rv' t]
  show "\<exists>u u'. update s lp rp lv rv t = Inr (True, u)
            \<and> update s lp rp lv' rv' t = Inr (True, u')
            \<and> (linear_vel u, angular_vel u) \<noteq> (linear_vel u', angular_vel u')"
    by auto
qed

theorem update_noninterference_witness:
  "wheel_separation (setWheelParams (Odometry 2) 1 1 1) \<noteq> 0
   \<and> wheel_separation (setWheelParams (init (Odometry 3) 9) 1 1 1)
       = wheel_separation (setWheelParams (Odometry 2) 1 1 1)
   \<and> left_wheel_radius (setWheelParams (init (Odometry 3) 9) 1 1 1)
       = left_wheel_radius (setWheelParams (Odometry 2) 1 1 1)
   \<and> right_wheel_radius (setWheelParams (init (Odometry 3) 9) 1 1 1)
       = right_wheel_radius (setWheelParams (Odometry 2) 1 1 1)
   \<and> (\<exists>u u'. update (setWheelParams (Odometry 2) 1 1 1) 0 0 3 5 7 = Inr (True, u)
          \<and> update (setWheelParams (init (Odometry 3) 9) 1 1 1) 4 2 3 5 8 = Inr (True, u')
          \<and> linear_vel u = linear_vel u' \<and> angular_vel u = angular_vel u')
   \<and> 0 * left_wheel_radius (setWheelParams (Odometry 2) 1 1 1)
       = left_wheel_old_pos (setWheelParams (Odometry 2) 1 1 1)
   \<and> 0 * right_wheel_radius (setWheelParams (Odometry 2) 1 1 1)
       = right_wheel_old_pos (setWheelParams (Odometry 2) 1 1 1)
   \<and> (\<exists>u. update (setWheelParams (Odometry 2) 1 1 1) 0 0 3 5 7 = Inr (True, u)
          \<and> pose_x u = 0 \<and> pose_y u = 0 \<and> heading u = 0)
   \<and> left_wheel_radius (setWheelParams (Odometry 2) 1 1 1)
       + right_wheel_radius (setWheelParams (Odometry 2) 1 1 1) \<noteq> 0
   \<and> ((3, 5) :: real \<times> real) \<noteq> (5, 3)
   \<and> (\<exists>u u'. update (setWheelParams (Odometry 2) 1 1 1) 0 0 3 5 7 = Inr (True, u)
          \<and> update (setWheelParams (Odometry 2) 1 1 1) 0 0 5 3 7 = Inr (True, u')
          \<and> (linear_vel u, angular_vel u) \<noteq> (linear_vel u', angular_vel u'))"
  using update_noninterference [where s = "setWheelParams (Odometry 2) 1 1 1"
      and s' = "setWheelParams (init (Odometry 3) 9) 1 1 1"
      and lp = 0 and rp = 0 and lv = 3 and rv = 5 and t = 7
      and lp' = 4 and rp' = 2 and t' = 8 and lv' = 5 and rv' = 3]
  by (simp add: setWheelParams_def Odometry_def init_def resetAccumulators_def RollingMeanAcc_def)

section \<open>The timestamp\<close>

text \<open>
  Claim C8. The claim is that every update call that changes pose or velocity estimate
  stores its time argument. \<^verbatim>\<open>update\<close> does not: called at time 5 on an estimator
  initialised at time 0 with separation and radii 1, it moves the pose to x = 1 and sets
  the velocity estimate to (1, 0), and the timestamp is still 0.
\<close>

theorem update_ignores_time:
  "update (setWheelParams (init (Odometry 1) 0) 1 1 1) 1 1 1 1 5
     = Inr (True, (setWheelParams (init (Odometry 1) 0) 1 1 1)
             \<lparr>linear_vel := 1, angular_vel := 0,
               left_wheel_old_pos := 1, right_wheel_old_pos := 1,
               pose_x := 1, pose_y := 0, heading := 0\<rparr>)
   \<and> timestamp ((setWheelParams (init (Odometry 1) 0) 1 1 1)
             \<lparr>linear_vel := 1, angular_vel := 0,
               left_wheel_old_pos := 1, right_wheel_old_pos := 1,
               pose_x := 1, pose_y := 0, heading := 0\<rparr>) = 0"
  by (simp add: setWheelParams_def Odometry_def init_def resetAccumulators_def RollingMeanAcc_def
      update_def call_integrate_fun_def integrateExact_Inr integrateRungeKutta2_def Let_def)

section \<open>The rolling mean\<close>

lemma tl_drop_snoc:
  assumes "k \<le> length xs"
  shows "tl (drop k xs @ [x]) = drop (Suc k) (xs @ [x])"
proof -
  have "tl (drop k xs @ [x]) = tl (drop k (xs @ [x]))"
    using assms by simp
  also have "\<dots> = drop (Suc k) (xs @ [x])"
    by (simp only: drop_Suc tl_drop)
  finally show ?thesis .
qed

lemma accumulate_fresh:
  "window_size (foldl accumulate (RollingMeanAcc N) xs) = N
   \<and> rolling_window (foldl accumulate (RollingMeanAcc N) xs) = drop (length xs - N) xs
   \<and> rolling_sum (foldl accumulate (RollingMeanAcc N) xs) = sum_list (drop (length xs - N) xs)"
proof (induction xs rule: rev_induct)
  case Nil
  show ?case by (simp add: RollingMeanAcc_def)
next
  case (snoc x xs)
  let ?a = "foldl accumulate (RollingMeanAcc N) xs"
  let ?b = "drop (length xs - N) xs @ [x]"
  show ?case
  proof (cases "N < length ?b")
    case True
    then have full: "N \<le> length xs" by simp
    have w: "tl ?b = drop (length (xs @ [x]) - N) (xs @ [x])"
      using full tl_drop_snoc [of "length xs - N" xs x] by (simp add: Suc_diff_le)
    have s: "sum_list (tl ?b) = sum_list ?b - hd ?b"
      by (cases ?b) simp_all
    from snoc True w s show ?thesis
      by (simp add: accumulate_def Let_def)
  next
    case False
    then have "length xs < N" by simp
    with snoc False show ?thesis
      by (simp add: accumulate_def Let_def)
  qed
qed

lemma rolling_mean_fresh:
  assumes "0 < N" and "xs \<noteq> []"
  shows "rolling_mean (foldl accumulate (RollingMeanAcc N) xs)
     = Inr (sum_list (drop (length xs - N) xs) / real (min N (length xs)))"
proof -
  have len: "length (drop (length xs - N) xs) = min N (length xs)"
    by auto
  have "min N (length xs) \<noteq> 0" using assms by simp
  then show ?thesis
    by (simp only: rolling_mean_def accumulate_fresh len) simp
qed

text \<open>
  Claim C6. Let \<open>xs\<close> be the samples inserted, in order, into a fresh accumulator of
  capacity \<open>N \<ge> 1\<close>. With at least one sample the mean is the sum of the last
  \<open>min N (length xs)\<close> samples divided by their number: the mean of all of \<open>xs\<close>
  when \<open>length xs \<le> N\<close>, and the mean of the last \<open>N\<close> samples only when
  \<open>length xs = N + j\<close> with \<open>j > 0\<close>. \<^verbatim>\<open>setVelocityRollingWindowSize\<close> stores
  \<open>n\<close> and replaces both accumulators by fresh ones of capacity \<open>n\<close>, whatever they
  held; for \<open>n \<ge> 1\<close>, one insert of \<open>v\<close> afterwards reports the mean \<open>v\<close>.
\<close>

theorem rolling_mean_window:
  "(0 < N \<and> xs \<noteq> [] \<longrightarrow>
      rolling_mean (foldl accumulate (RollingMeanAcc N) xs)
        = Inr (sum_list (drop (length xs - N) xs) / real (min N (length xs))))
   \<and> (0 < N \<and> xs \<noteq> [] \<and> length xs \<le> N \<longrightarrow>
      rolling_mean (foldl accumulate (RollingMeanAcc N) xs)
        = Inr (sum_list xs / real (length xs)))
   \<and> (0 < N \<and> 0 < j \<and> length xs = N + j \<longrightarrow>
      rolling_mean (foldl accumulate (RollingMeanAcc N) xs)
        = Inr (sum_list (drop j xs) / real N)
      \<and> length (drop j xs) = N)
   \<and> velocity_rolling_window_size (setVelocityRollingWindowSize s n) = n
   \<and> linear_accum (setVelocityRollingWindowSize s n) = RollingMeanAcc n
   \<and> angular_accum (setVelocityRollingWindowSize s n) = RollingMeanAcc n
   \<and> window_size (RollingMeanAcc n) = n
   \<and> rolling_window (RollingMeanAcc n) = []
   \<and> (0 < n \<longrightarrow>
      insert_sample (linear_accum (setVelocityRollingWindowSize s n)) v = Inr v
      \<and> insert_sample (angular_accum (setVelocityRollingWindowSize s n)) v = Inr v)"
proof (intro conjI impI)
  assume "0 < N \<and> xs \<noteq> []"
  then show "rolling_mean (foldl accumulate (RollingMeanAcc N) xs)
        = Inr (sum_list (drop (length xs - N) xs) / real (min N (length xs)))"
    using rolling_mean_fresh by blast
next
  assume a: "0 < N \<and> xs \<noteq> [] \<and> length xs \<le> N"
  then have "rolling_mean (foldl accumulate (RollingMeanAcc N) xs)
        = Inr (sum_list (drop (length xs - N) xs) / real (min N (length xs)))"
    using rolling_mean_fresh by blast
  with a show "rolling_mean (foldl accumulate (RollingMeanAcc N) xs)
        = Inr (sum_list xs / real (length xs))"
    by (simp add: min_def)
next
  assume a: "0 < N \<and> 0 < j \<and> length xs = N + j"
  then have "xs \<noteq> []" by auto
  with a have "rolling_mean (foldl accumulate (RollingMeanAcc N) xs)
        = Inr (sum_list (drop (length xs - N) xs) / real (min N (length xs)))"
    using rolling_mean_fresh by blast
  with a show "rolling_mean (foldl accumulate (RollingMeanAcc N) xs)
        = Inr (sum_list (drop j xs) / real N)"
    by simp
next
  assume "0 < N \<and> 0 < j \<and> length xs = N + j"
  then show "length (drop j xs) = N" by simp
next
  show "velocity_rolling_window_size (setVelocityRollingWindowSize s n) = n"
    by (simp add: setVelocityRollingWindowSize_def resetAccumulators_def)
next
  show "linear_accum (setVelocityRollingWindowSize s n) = RollingMeanAcc n"
    by (simp add: setVelocityRollingWindowSize_def resetAccumulators_def)
next
  show "angular_accum (setVelocityRollingWindowSize s n) = RollingMeanAcc n"
    by (simp add: setVelocityRollingWindowSize_def resetAccumulators_def)
next
  show "window_size (RollingMeanAcc n) = n" by (simp add: RollingMeanAcc_def)
next
  show "rolling_window (RollingMeanAcc n) = []" by (simp add: RollingMeanAcc_def)
next
  assume "0 < n"
  then show "insert_sample (linear_accum (setVelocityRollingWindowSize s n)) v = Inr v"
    by (simp add: setVelocityRollingWindowSize_def resetAccumulators_def insert_sample_def
        RollingMeanAcc_def accumulate_def rolling_mean_def Let_def)
next
  assume "0 < n"
  then show "insert_sample (angular_accum (setVelocityRollingWindowSize s n)) v = Inr v"
    by (simp add: setVelocityRollingWindowSize_def resetAccumulators_def insert_sample_def
        RollingMeanAcc_def accumulate_def rolling_mean_def Let_def)
qed

theorem rolling_mean_window_witness:
  "(0 :: nat) < 2 \<and> [1, 3 :: real] \<noteq> [] \<and> length [1, 3 :: real] \<le> 2
   \<and> rolling_mean (foldl accumulate (RollingMeanAcc 2) [1, 3]) = Inr 2
   \<and> (0 :: nat) < 1 \<and> length [1, 3, 7 :: real] = 2 + 1
   \<and> rolling_mean (foldl accumulate (RollingMeanAcc 2) [1, 3, 7]) = Inr 5
   \<and> insert_sample (linear_accum (setVelocityRollingWindowSize
        (setWheelParams (Odometry 5) 1 1 1) 2)) 9 = Inr 9
   \<and> insert_sample (angular_accum (setVelocityRollingWindowSize
        (setWheelParams (Odometry 5) 1 1 1) 2)) 9 = Inr 9"
  using rolling_mean_window [where N = 2 and xs = "[1, 3]" and j = 1 and n = 2 and v = 9
      and s = "setWheelParams (Odometry 5) 1 1 1"]
    rolling_mean_window [where N = 2 and xs = "[1, 3, 7]" and j = 1 and n = 2 and v = 9
      and s = "setWheelParams (Odometry 5) 1 1 1"]
  by simp

end
